theory Spec2Isabelle
  imports Complex_Main "HOL-Library.Multiset"
begin

section \<open>Values and exceptions of the Python program\<close>

text \<open>
  The values that \<open>json.load\<close> produces, and that the program passes on as labels and
  URLs without looking at their type. A \<open>JObj\<close> holds the members of an object in
  document order; a key given twice keeps its last value, as in the Python dict.
  Python's \<open>None\<close> is \<open>JNull\<close>. \<open>JNonFinite\<close> holds the floats that \<open>json.load\<close>
  makes of \<open>NaN\<close>, \<open>Infinity\<close> and \<open>-Infinity\<close>.
\<close>

datatype nonfinite = NaN | PosInfinity | NegInfinity

datatype json =
    JNull
  | JBool bool
  | JInt int
  | JFloat rat
  | JNonFinite nonfinite
  | JStr string
  | JArr "json list"
  | JObj "(string \<times> json) list"

text \<open>Python truthiness, as tested by \<open>if url\<close>.\<close>

fun truthy :: "json \<Rightarrow> bool" where
  "truthy JNull = False"
| "truthy (JBool b) = b"
| "truthy (JInt i) = (i \<noteq> 0)"
| "truthy (JFloat r) = (r \<noteq> 0)"
| "truthy (JNonFinite x) = True"
| "truthy (JStr s) = (s \<noteq> [])"
| "truthy (JArr xs) = (xs \<noteq> [])"
| "truthy (JObj kvs) = (kvs \<noteq> [])"

text \<open>
  Exceptions are values: a class and the text that \<open>str(e)\<close> gives. \<open>Timeout\<close> and
  \<open>RequestException\<close> are the two classes of \<open>requests.exceptions\<close> that
  \<open>check_url\<close> names; \<open>RequestException\<close> stands for every request exception that is
  not a timeout (the handler for \<open>Timeout\<close> comes first in the source).
\<close>

datatype exn_class =
    Timeout
  | RequestException
  | JSONDecodeError
  | UnicodeDecodeError
  | RecursionError
  | KeyError
  | AttributeError
  | TypeError
  | ValueError
  | OtherException

datatype exn = Exn exn_class string

fun exn_class_of :: "exn \<Rightarrow> exn_class" where
  "exn_class_of (Exn c m) = c"

fun str_exn :: "exn \<Rightarrow> string" where
  "str_exn (Exn c m) = m"

subsection \<open>Decimal rendering of integers\<close>

text \<open>\<open>str(n)\<close> for a Python int, as the f-strings of the source use it.\<close>

function digits :: "nat \<Rightarrow> string" where
  "digits n = (if n < 10 then [''0123456789'' ! n]
               else digits (n div 10) @ [''0123456789'' ! (n mod 10)])"
  by pat_completeness auto
termination
  by (relation "measure id") auto

declare digits.simps [simp del]

definition str_int :: "int \<Rightarrow> string" where
  "str_int i = (if i < 0 then ''-'' @ digits (nat (- i)) else digits (nat i))"

section \<open>The identity provider\<close>

text \<open>
  The module-level variable \<open>ua\<close> is either a \<open>UserAgent\<close> object or, when the
  constructor raised, a dict with the one key \<open>User-Agent\<close>.
\<close>

datatype ua_t = UserAgent | UaDict "(string \<times> string) list"

definition fallback_user_agent :: string where
  "fallback_user_agent =
     ''Mozilla/5.0 (Windows NT 10.0; Win64; x64) AppleWebKit/537.36 (KHTML, like Gecko) Chrome/58.0.3029.110 Safari/537.3''"

text \<open>
  Module initialisation: the argument is what \<open>UserAgent()\<close> did (\<open>None\<close>: it returned,
  \<open>Some e\<close>: it raised \<open>e\<close>). The result is the value of \<open>ua\<close> and the warnings shown.
\<close>

definition init_ua :: "exn option \<Rightarrow> ua_t \<times> string list" where
  "init_ua r =
     (case r of
        None \<Rightarrow> (UserAgent, [])
      | Some e \<Rightarrow> (UaDict [(''User-Agent'', fallback_user_agent)],
                   [''Failed to initialize UserAgent: '' @ str_exn e]))"

section \<open>The request dispatcher\<close>

record URLChecker =
  timeout :: int
  max_workers :: int

definition new_URLChecker :: URLChecker where
  "new_URLChecker = \<lparr>timeout = 5, max_workers = 5\<rparr>"

record request =
  req_url :: json
  req_headers :: "(string \<times> string) list"
  req_timeout :: int
  req_allow_redirects :: bool

text \<open>What \<open>session.get\<close> does: it returns a response with a status code, or raises.\<close>

datatype http_result = Response int | Raised exn

text \<open>
  The surroundings of one probe: the string that \<open>ua.random\<close> gives in it, and the
  outcome of the GET it issues.
\<close>

record probe_env =
  pe_random :: string
  pe_get :: "request \<Rightarrow> http_result"

text \<open>The \<open>headers\<close> dict of \<open>check_url\<close>; \<open>ua["User-Agent"]\<close> raises on a missing key.\<close>

definition headers :: "ua_t \<Rightarrow> string \<Rightarrow> exn + (string \<times> string) list" where
  "headers ua rnd =
     (case (case ua of
              UserAgent \<Rightarrow> Inr rnd
            | UaDict d \<Rightarrow> (case map_of d ''User-Agent'' of
                             None \<Rightarrow> Inl (Exn KeyError (CHR 0x27 # ''User-Agent'' @ [CHR 0x27]))
                           | Some v \<Rightarrow> Inr v)) of
        Inl e \<Rightarrow> Inl e
      | Inr agent \<Rightarrow> Inr [(''User-Agent'', agent), (''Referer'', ''https://www.google.com/'')])"

text \<open>The arguments of the \<open>session.get\<close> call.\<close>

definition probe_request :: "URLChecker \<Rightarrow> ua_t \<Rightarrow> string \<Rightarrow> json \<Rightarrow> exn + request" where
  "probe_request self ua rnd url =
     (case headers ua rnd of
        Inl e \<Rightarrow> Inl e
      | Inr h \<Rightarrow> Inr \<lparr>req_url = url, req_headers = h, req_timeout = timeout self,
                     req_allow_redirects = False\<rparr>)"

text \<open>
  The \<open>try\<close> block of \<open>check_url\<close>, given what \<open>session.get\<close> did: \<open>Inr\<close> is the
  returned status string, \<open>Inl\<close> an exception that no handler of the block matches.
\<close>

definition classify :: "http_result \<Rightarrow> exn + string" where
  "classify r =
     (case r of
        Response status_code \<Rightarrow>
          (if status_code = 200 then Inr ''Working''
           else if 300 \<le> status_code \<and> status_code < 400
             then Inr (''Redirect - Status Code: '' @ str_int status_code)
           else Inr (''Not Working - Status Code: '' @ str_int status_code))
      | Raised e \<Rightarrow>
          (if exn_class_of e = Timeout then Inr ''Timeout''
           else if exn_class_of e = RequestException then Inr (''Failed - '' @ str_exn e)
           else Inl e))"

definition check_url :: "URLChecker \<Rightarrow> ua_t \<Rightarrow> probe_env \<Rightarrow> json \<Rightarrow> exn + string" where
  "check_url self ua env url =
     (case probe_request self ua (pe_random env) url of
        Inl e \<Rightarrow> Inl e
      | Inr req \<Rightarrow> classify (pe_get env req))"

section \<open>The worker pool coordinator\<close>

text \<open>
  A future of the executor: the position of its URL in \<open>url_list\<close>, the URL (the value
  the \<open>futures\<close> dict keeps for it), and what \<open>future.result()\<close> does: it returns what
  \<open>check_url\<close> returned (\<open>Inr\<close>) or raises what \<open>check_url\<close> raised (\<open>Inl\<close>).
\<close>

record future =
  fut_id :: nat
  fut_url :: json
  fut_result :: "exn + string"

text \<open>
  The dict comprehension: one \<open>executor.submit(self.check_url, url)\<close> for every truthy
  \<open>url\<close>, in the order of the list. \<open>world j\<close> is the surroundings in which the probe
  of the URL at position \<open>j\<close> of the list runs.
\<close>

fun submit_all ::
  "URLChecker \<Rightarrow> ua_t \<Rightarrow> (nat \<Rightarrow> probe_env) \<Rightarrow> nat \<Rightarrow> json list \<Rightarrow> future list" where
  "submit_all self ua world j [] = []"
| "submit_all self ua world j (url # url_list) =
     (if truthy url
      then \<lparr>fut_id = j, fut_url = url, fut_result = check_url self ua (world j) url\<rparr>
             # submit_all self ua world (Suc j) url_list
      else submit_all self ua world (Suc j) url_list)"

text \<open>
  \<open>as_completed\<close> yields every future once, in the order in which the workers finish.
  That order is not the program's choice; the schedule \<open>sched\<close> stands for it: each
  number picks the next future to finish among those still running, and when the
  schedule is used up the rest finish in the order of submission.
\<close>

fun as_completed :: "nat list \<Rightarrow> 'a list \<Rightarrow> 'a list" where
  "as_completed sched [] = []"
| "as_completed [] (f # fs) = f # fs"
| "as_completed (k # sched) (f # fs) =
     (let j = k mod length (f # fs)
      in (f # fs) ! j # as_completed sched (take j (f # fs) @ drop (Suc j) (f # fs)))"

text \<open>
  The \<open>try\<close> block of the loop: the status is what \<open>future.result()\<close> returns, and
  \<open>except Exception\<close> turns whatever it raises into a status.
\<close>

definition result_status :: "future \<Rightarrow> string" where
  "result_status future =
     (case fut_result future of
        Inr status \<Rightarrow> status
      | Inl e \<Rightarrow> ''Failed - '' @ str_exn e)"

text \<open>
  The \<open>for i, future in enumerate(...)\<close> loop; \<open>n\<close> is \<open>len(url_list)\<close>, the state is
  \<open>statuses\<close> and the lines written with \<open>st.write\<close>.
\<close>

fun collect ::
  "int \<Rightarrow> int \<Rightarrow> future list \<Rightarrow> string list \<times> string list \<Rightarrow> string list \<times> string list" where
  "collect n i [] (statuses, out) = (statuses, out)"
| "collect n i (future # rest) (statuses, out) =
     (let status = result_status future;
          statuses' = statuses @ [status];
          out' = (if (i + 1) mod 10 = 0 \<or> i = n - 1
                  then out @ [''Processed '' @ str_int (i + 1) @ '' out of '' @ str_int n
                              @ '' URLs'']
                  else out)
      in collect n (i + 1) rest (statuses', out'))"

text \<open>
  \<open>process_urls\<close>. The constructor of the pool refuses a number of workers that is
  not positive with a \<open>ValueError\<close>, which leaves \<open>process_urls\<close>, no handler being
  around the \<open>with\<close> statement. Otherwise \<open>process_urls\<close> returns \<open>statuses\<close>; the
  second component is what it wrote.
\<close>

definition process_urls ::
  "URLChecker \<Rightarrow> ua_t \<Rightarrow> (nat \<Rightarrow> probe_env) \<Rightarrow> nat list \<Rightarrow> json list
     \<Rightarrow> exn + (string list \<times> string list)" where
  "process_urls self ua world sched url_list =
     (if max_workers self \<le> 0
      then Inl (Exn ValueError ''max_workers must be greater than 0'')
      else (let futures = submit_all self ua world 0 url_list
            in Inr (collect (int (length url_list)) 0 (as_completed sched futures) ([], []))))"

section \<open>The extractor\<close>

definition quoted :: "string \<Rightarrow> string" where
  "quoted s = CHR 0x27 # s @ [CHR 0x27]"

fun type_name :: "json \<Rightarrow> string" where
  "type_name JNull = ''NoneType''"
| "type_name (JBool b) = ''bool''"
| "type_name (JInt i) = ''int''"
| "type_name (JFloat r) = ''float''"
| "type_name (JNonFinite x) = ''float''"
| "type_name (JStr s) = ''str''"
| "type_name (JArr xs) = ''list''"
| "type_name (JObj kvs) = ''dict''"

text \<open>\<open>v.get(key, default)\<close>: only a dict has the method.\<close>

fun dict_get :: "json \<Rightarrow> string \<Rightarrow> json \<Rightarrow> exn + json" where
  "dict_get (JObj kvs) key dflt =
     Inr (case map_of (rev kvs) key of None \<Rightarrow> dflt | Some v \<Rightarrow> v)"
| "dict_get v key dflt =
     Inl (Exn AttributeError (quoted (type_name v) @ '' object has no attribute ''
                              @ quoted ''get''))"

text \<open>
  The values a \<open>for\<close> loop over \<open>v\<close> runs through: the elements of a list, the keys of
  a dict, the characters of a string; any other value is not iterable.
\<close>

fun iterate :: "json \<Rightarrow> exn + json list" where
  "iterate (JArr xs) = Inr xs"
| "iterate (JObj kvs) = Inr (map JStr (rev (remdups (rev (map fst kvs)))))"
| "iterate (JStr s) = Inr (map (\<lambda>c. JStr [c]) s)"
| "iterate v = Inl (Exn TypeError (quoted (type_name v) @ '' object is not iterable''))"

text \<open>
  Sequencing of steps that may raise: the first exception raised ends the function.
\<close>

fun bind_exn :: "exn + 'a \<Rightarrow> ('a \<Rightarrow> exn + 'b) \<Rightarrow> exn + 'b" where
  "bind_exn (Inl e) f = Inl e"
| "bind_exn (Inr x) f = f x"

text \<open>
  The two inner loops of \<open>read_urls\<close> are the same but for the key: over \<open>images\<close>
  with \<open>src\<close>, over \<open>attachments\<close> with \<open>attachmentLocation\<close>.
\<close>

fun read_entries ::
  "string \<Rightarrow> json \<Rightarrow> json list \<Rightarrow> json list \<times> json list \<Rightarrow> exn + (json list \<times> json list)" where
  "read_entries key model [] (urls, models) = Inr (urls, models)"
| "read_entries key model (entry # entries) (urls, models) =
     (case dict_get entry key JNull of
        Inl e \<Rightarrow> Inl e
      | Inr url \<Rightarrow>
          read_entries key model entries
            (if truthy url then (urls @ [url], models @ [model]) else (urls, models)))"

text \<open>The loop \<open>for json_model in data\<close>, over the four lists.\<close>

fun read_models ::
  "json list \<Rightarrow> json list \<times> json list \<times> json list \<times> json list
     \<Rightarrow> exn + (json list \<times> json list \<times> json list \<times> json list)" where
  "read_models [] acc = Inr acc"
| "read_models (json_model # rest) (image_urls, image_models, attachment_urls, attachment_models) =
     bind_exn (dict_get json_model ''general'' (JObj [])) (\<lambda>general.
     bind_exn (dict_get general ''model'' JNull) (\<lambda>model.
     bind_exn (dict_get json_model ''images'' (JArr [])) (\<lambda>images.
     bind_exn (iterate images) (\<lambda>image_list.
     bind_exn (read_entries ''src'' model image_list (image_urls, image_models))
       (\<lambda>(image_urls', image_models').
     bind_exn (dict_get json_model ''attachments'' (JArr [])) (\<lambda>attachments.
     bind_exn (iterate attachments) (\<lambda>attachment_list.
     bind_exn (read_entries ''attachmentLocation'' model attachment_list
                 (attachment_urls, attachment_models))
       (\<lambda>(attachment_urls', attachment_models').
     read_models rest
       (image_urls', image_models', attachment_urls', attachment_models')))))))))"

text \<open>
  \<open>read_urls\<close>: the argument is what opening the file and \<open>json.load\<close> did, the
  decoded document (\<open>Inr\<close>) or the exception raised (\<open>Inl\<close>). Only a
  \<open>JSONDecodeError\<close> is handled. The result is the tuple
  \<open>(image_models, image_urls, attachment_models, attachment_urls)\<close>; the message shown
  by \<open>st.error\<close> is not part of it.
\<close>

definition read_urls ::
  "exn + json \<Rightarrow> exn + (json list \<times> json list \<times> json list \<times> json list)" where
  "read_urls loaded =
     (case loaded of
        Inl e \<Rightarrow> (if exn_class_of e = JSONDecodeError then Inr ([], [], [], []) else Inl e)
      | Inr data \<Rightarrow>
          (case iterate data of
             Inl e \<Rightarrow> Inl e
           | Inr models \<Rightarrow>
               (case read_models models ([], [], [], []) of
                  Inl e \<Rightarrow> Inl e
                | Inr (image_urls, image_models, attachment_urls, attachment_models) \<Rightarrow>
                    Inr (image_models, image_urls, attachment_models, attachment_urls))))"

section \<open>The exporter\<close>

text \<open>
  \<open>pd.DataFrame\<close> of three columns given as lists: row \<open>i\<close> holds the three values at
  index \<open>i\<close>; columns of different lengths are refused.
\<close>

definition data_frame ::
  "json list \<Rightarrow> json list \<Rightarrow> string list \<Rightarrow> exn + (json \<times> json \<times> string) list" where
  "data_frame models urls statuses =
     (if length models = length urls \<and> length urls = length statuses
      then Inr (zip models (zip urls statuses))
      else Inl (Exn ValueError ''All arrays must be of the same length''))"

text \<open>
  \<open>save_to_excel\<close>. The two data frames go, by sheet name, to the Excel writer, which
  is not part of the program: \<open>writer\<close> says what it does with the sheets, \<open>None\<close> when
  it writes them and \<open>Some e\<close> when it raises \<open>e\<close> (as it does for a cell that it cannot
  store). The result is the sheets written.
\<close>

definition save_to_excel ::
  "((string \<times> (json \<times> json \<times> string) list) list \<Rightarrow> exn option)
     \<Rightarrow> json list \<Rightarrow> json list \<Rightarrow> string list \<Rightarrow> json list \<Rightarrow> json list \<Rightarrow> string list
     \<Rightarrow> exn + (string \<times> (json \<times> json \<times> string) list) list" where
  "save_to_excel writer image_models image_urls image_statuses
                 attachment_models attachment_urls attachment_statuses =
     (case data_frame image_models image_urls image_statuses of
        Inl e \<Rightarrow> Inl e
      | Inr df_images \<Rightarrow>
          (case data_frame attachment_models attachment_urls attachment_statuses of
             Inl e \<Rightarrow> Inl e
           | Inr df_attachments \<Rightarrow>
               (case writer [(''image_status'', df_images), (''pdf_status'', df_attachments)] of
                  Some e \<Rightarrow> Inl e
                | None \<Rightarrow>
                    Inr [(''image_status'', df_images), (''pdf_status'', df_attachments)])))"

section \<open>The documents the extractor is written for\<close>

text \<open>
  \<open>read_urls\<close> expects an array of objects, in each of which \<open>general\<close>, where
  present, is an object, and \<open>images\<close> and \<open>attachments\<close>, where present, are arrays
  of objects.
\<close>

fun is_object :: "json \<Rightarrow> bool" where
  "is_object (JObj kvs) = True"
| "is_object v = False"

fun is_array_of_objects :: "json \<Rightarrow> bool" where
  "is_array_of_objects (JArr xs) = list_all is_object xs"
| "is_array_of_objects v = False"

fun well_formed_model :: "json \<Rightarrow> bool" where
  "well_formed_model (JObj kvs) =
     ((case map_of (rev kvs) ''general'' of None \<Rightarrow> True | Some g \<Rightarrow> is_object g)
      \<and> (case map_of (rev kvs) ''images'' of None \<Rightarrow> True | Some v \<Rightarrow> is_array_of_objects v)
      \<and> (case map_of (rev kvs) ''attachments'' of
            None \<Rightarrow> True
          | Some v \<Rightarrow> is_array_of_objects v))"
| "well_formed_model v = False"

fun well_formed_document :: "json \<Rightarrow> bool" where
  "well_formed_document (JArr models) = list_all well_formed_model models"
| "well_formed_document v = False"

section \<open>Example inputs\<close>

text \<open>
  A network in which the answer depends on the URL alone, and the request that the
  default checker sends for a URL when the identity provider answers \<open>agent\<close>.
\<close>

definition example_get :: "request \<Rightarrow> http_result" where
  "example_get req =
     (if req_url req = JStr ''http://x/200'' then Response 200
      else if req_url req = JStr ''http://x/301'' then Response 301
      else if req_url req = JStr ''http://x/404'' then Response 404
      else if req_url req = JStr ''http://x/slow'' then Raised (Exn Timeout ''read timed out'')
      else if req_url req = JStr ''http://x/fault'' then Raised (Exn ValueError ''fault'')
      else Raised (Exn RequestException ''connection refused''))"

definition example_env :: probe_env where
  "example_env = \<lparr>pe_random = ''agent'', pe_get = example_get\<rparr>"

definition example_request :: "json \<Rightarrow> request" where
  "example_request url =
     \<lparr>req_url = url,
      req_headers = [(''User-Agent'', ''agent''), (''Referer'', ''https://www.google.com/'')],
      req_timeout = 5, req_allow_redirects = False\<rparr>"

text \<open>
  An Excel writer that refuses a sheet in which the text of a cell holds a control
  character other than tab, line feed and carriage return, and writes any other.
\<close>

definition illegal_character :: "char \<Rightarrow> bool" where
  "illegal_character c =
     ((of_char c :: nat) < 32 \<and> (of_char c :: nat) \<noteq> 9 \<and> (of_char c :: nat) \<noteq> 10
      \<and> (of_char c :: nat) \<noteq> 13)"

fun cell_text :: "json \<Rightarrow> string" where
  "cell_text (JStr s) = s"
| "cell_text v = []"

definition example_writer ::
  "(string \<times> (json \<times> json \<times> string) list) list \<Rightarrow> exn option" where
  "example_writer sheets =
     (if list_ex (\<lambda>(name, rows).
            list_ex (\<lambda>(model, url, status).
              list_ex illegal_character (cell_text model @ cell_text url @ status)) rows)
          sheets
      then Some (Exn OtherException ''IllegalCharacterError'')
      else None)"

text \<open>
  A document with two models: an image without \<open>src\<close> and an attachment with an empty
  location are among the entries.
\<close>

definition example_document :: json where
  "example_document =
     JArr [JObj [(''general'', JObj [(''model'', JStr ''m1'')]),
                 (''images'', JArr [JObj [(''src'', JStr ''http://x/200'')],
                                    JObj [(''alt'', JStr ''no source'')],
                                    JObj [(''src'', JStr ''http://x/404'')]]),
                 (''attachments'', JArr [JObj [(''attachmentLocation'', JStr [])]])],
           JObj [(''images'', JArr [JObj [(''src'', JNull)]]),
                 (''attachments'', JArr [JObj [(''attachmentLocation'', JStr ''http://x/301'')]])]]"

section \<open>Facts about the dispatcher\<close>

lemma probe_request_init:
  "probe_request self (fst (init_ua r)) rnd url =
     Inr \<lparr>req_url = url,
          req_headers = [(''User-Agent'', case r of None \<Rightarrow> rnd | Some e \<Rightarrow> fallback_user_agent),
                         (''Referer'', ''https://www.google.com/'')],
          req_timeout = timeout self, req_allow_redirects = False\<rparr>"
  by (simp add: probe_request_def headers_def init_ua_def split: option.splits)

lemma str_int_numerals:
  "str_int 1 = ''1''" "str_int 2 = ''2''" "str_int 3 = ''3''"
  "str_int 200 = ''200''" "str_int 201 = ''201''" "str_int 301 = ''301''"
  "str_int 302 = ''302''" "str_int 404 = ''404''" "str_int 500 = ''500''"
  by (simp_all add: str_int_def digits.simps)

lemma check_url_example:
  "check_url new_URLChecker (fst (init_ua None)) example_env (JStr ''http://x/200'')
     = Inr ''Working''"
  "check_url new_URLChecker (fst (init_ua None)) example_env (JStr ''http://x/404'')
     = Inr ''Not Working - Status Code: 404''"
  "check_url new_URLChecker (fst (init_ua None)) example_env (JStr ''http://x/fault'')
     = Inl (Exn ValueError ''fault'')"
  by (simp_all add: check_url_def classify_def probe_request_init example_env_def
        example_get_def str_int_numerals)

text \<open>
  C2. One probe issues one GET for the URL, with the checker's timeout and with
  redirects not followed. A response with status 200 gives the status \<open>Working\<close>; one
  with a status from 300 to 399 gives \<open>Redirect - Status Code: \<close> followed by the code;
  one with any other status gives \<open>Not Working - Status Code: \<close> followed by the code; a
  timeout of the request gives \<open>Timeout\<close>; any other request exception gives
  \<open>Failed - \<close> followed by its description.
\<close>

theorem check_url_classification:
  assumes "probe_request self (fst (init_ua r)) (pe_random env) url = Inr req"
  shows "req_url req = url \<and> req_timeout req = timeout self \<and> \<not> req_allow_redirects req
    \<and> (pe_get env req = Response 200 \<longrightarrow>
          check_url self (fst (init_ua r)) env url = Inr ''Working'')
    \<and> (pe_get env req = Response c \<longrightarrow> 300 \<le> c \<longrightarrow> c < 400 \<longrightarrow>
          check_url self (fst (init_ua r)) env url
            = Inr (''Redirect - Status Code: '' @ str_int c))
    \<and> (pe_get env req = Response c \<longrightarrow> c \<noteq> 200 \<longrightarrow> \<not> (300 \<le> c \<and> c < 400) \<longrightarrow>
          check_url self (fst (init_ua r)) env url
            = Inr (''Not Working - Status Code: '' @ str_int c))
    \<and> (pe_get env req = Raised (Exn Timeout m) \<longrightarrow>
          check_url self (fst (init_ua r)) env url = Inr ''Timeout'')
    \<and> (pe_get env req = Raised (Exn RequestException m) \<longrightarrow>
          check_url self (fst (init_ua r)) env url = Inr (''Failed - '' @ m))"
  using assms
  by (auto simp: check_url_def classify_def probe_request_init)

theorem check_url_classification_witness:
  "check_url new_URLChecker (fst (init_ua None))
     \<lparr>pe_random = ''agent'', pe_get = (\<lambda>req. Response 200)\<rparr> (JStr ''http://x/200'')
     = Inr ''Working''
   \<and> check_url new_URLChecker (fst (init_ua None))
     \<lparr>pe_random = ''agent'', pe_get = (\<lambda>req. Response 301)\<rparr> (JStr ''http://x/301'')
     = Inr ''Redirect - Status Code: 301''
   \<and> check_url new_URLChecker (fst (init_ua None))
     \<lparr>pe_random = ''agent'', pe_get = (\<lambda>req. Response 404)\<rparr> (JStr ''http://x/404'')
     = Inr ''Not Working - Status Code: 404''
   \<and> check_url new_URLChecker (fst (init_ua None))
     \<lparr>pe_random = ''agent'', pe_get = (\<lambda>req. Raised (Exn Timeout ''read timed out''))\<rparr>
     (JStr ''http://x/slow'')
     = Inr ''Timeout''
   \<and> check_url new_URLChecker (fst (init_ua None))
     \<lparr>pe_random = ''agent'', pe_get = (\<lambda>req. Raised (Exn RequestException ''connection refused''))\<rparr>
     (JStr ''http://x/down'')
     = Inr ''Failed - connection refused''"
  using
    check_url_classification [of new_URLChecker None
      "\<lparr>pe_random = ''agent'', pe_get = (\<lambda>req. Response 200)\<rparr>" "JStr ''http://x/200''"
      "example_request (JStr ''http://x/200'')" 301 "''''"]
    check_url_classification [of new_URLChecker None
      "\<lparr>pe_random = ''agent'', pe_get = (\<lambda>req. Response 301)\<rparr>" "JStr ''http://x/301''"
      "example_request (JStr ''http://x/301'')" 301 "''''"]
    check_url_classification [of new_URLChecker None
      "\<lparr>pe_random = ''agent'', pe_get = (\<lambda>req. Response 404)\<rparr>" "JStr ''http://x/404''"
      "example_request (JStr ''http://x/404'')" 404 "''''"]
    check_url_classification [of new_URLChecker None
      "\<lparr>pe_random = ''agent'', pe_get = (\<lambda>req. Raised (Exn Timeout ''read timed out''))\<rparr>"
      "JStr ''http://x/slow''" "example_request (JStr ''http://x/slow'')" 0 "''read timed out''"]
    check_url_classification [of new_URLChecker None
      "\<lparr>pe_random = ''agent'', pe_get = (\<lambda>req. Raised (Exn RequestException ''connection refused''))\<rparr>"
      "JStr ''http://x/down''" "example_request (JStr ''http://x/down'')" 0 "''connection refused''"]
  by (simp add: probe_request_init example_request_def new_URLChecker_def str_int_numerals)

text \<open>
  C7, as the code has it. For a probe that receives a response, the status is
  \<open>Not Working - Status Code: \<close> with the code exactly when the code is not 200 and
  not from 300 to 399. The codes 201 to 299 are therefore reported as not working.
\<close>

theorem check_url_not_working_iff:
  assumes "probe_request self (fst (init_ua r)) (pe_random env) url = Inr req"
    and "pe_get env req = Response c"
  shows "check_url self (fst (init_ua r)) env url
           = Inr (''Not Working - Status Code: '' @ str_int c)
         \<longleftrightarrow> c \<noteq> 200 \<and> \<not> (300 \<le> c \<and> c < 400)"
  using assms
  by (auto simp: check_url_def classify_def probe_request_init)

theorem check_url_not_working_iff_witness:
  "check_url new_URLChecker (fst (init_ua None))
      \<lparr>pe_random = ''agent'', pe_get = (\<lambda>req. Response 500)\<rparr> (JStr ''http://x/500'')
      = Inr ''Not Working - Status Code: 500''
   \<and> check_url new_URLChecker (fst (init_ua None))
      \<lparr>pe_random = ''agent'', pe_get = (\<lambda>req. Response 302)\<rparr> (JStr ''http://x/302'')
      \<noteq> Inr ''Not Working - Status Code: 302''"
  using
    check_url_not_working_iff [of new_URLChecker None
      "\<lparr>pe_random = ''agent'', pe_get = (\<lambda>req. Response 500)\<rparr>" "JStr ''http://x/500''"
      "example_request (JStr ''http://x/500'')" 500]
    check_url_not_working_iff [of new_URLChecker None
      "\<lparr>pe_random = ''agent'', pe_get = (\<lambda>req. Response 302)\<rparr>" "JStr ''http://x/302''"
      "example_request (JStr ''http://x/302'')" 302]
  by (simp add: probe_request_init example_request_def new_URLChecker_def str_int_numerals)

text \<open>
  C7 as stated fails at the status code 201, which is a 2xx code: the probe reports
  \<open>Not Working - Status Code: 201\<close>.
\<close>

theorem check_url_201_counterexample:
  "check_url new_URLChecker (fst (init_ua None))
     \<lparr>pe_random = ''agent'', pe_get = (\<lambda>req. Response 201)\<rparr> (JStr ''http://x/201'')
     = Inr ''Not Working - Status Code: 201''
   \<and> (200::int) \<le> 201 \<and> (201::int) < 300"
  by (simp add: check_url_def classify_def probe_request_init str_int_numerals)

text \<open>
  C4, as the code has it. Whenever the GET returns a response, or raises a timeout or
  another request exception, \<open>check_url\<close> returns a status string and raises nothing.
\<close>

theorem check_url_returns_status:
  assumes "probe_request self (fst (init_ua r)) (pe_random env) url = Inr req"
    and "case pe_get env req of
           Response c \<Rightarrow> True
         | Raised e \<Rightarrow> exn_class_of e = Timeout \<or> exn_class_of e = RequestException"
  shows "\<exists>status. check_url self (fst (init_ua r)) env url = Inr status"
  using assms
  by (auto simp: check_url_def classify_def probe_request_init split: http_result.splits)

theorem check_url_returns_status_witness:
  "\<exists>status. check_url new_URLChecker (fst (init_ua None))
     \<lparr>pe_random = ''agent'', pe_get = (\<lambda>req. Raised (Exn RequestException ''connection refused''))\<rparr>
     (JStr ''http://x/down'') = Inr status"
  using check_url_returns_status [of new_URLChecker None
      "\<lparr>pe_random = ''agent'', pe_get = (\<lambda>req. Raised (Exn RequestException ''connection refused''))\<rparr>"
      "JStr ''http://x/down''" "example_request (JStr ''http://x/down'')"]
  by (simp add: probe_request_init example_request_def new_URLChecker_def)

text \<open>
  C4 as stated fails when the GET raises an exception that is not a request exception:
  \<open>check_url\<close> has no handler for it and raises it to its caller. Here the checker has
  the timeout 0, which the HTTP library refuses with a \<open>ValueError\<close>.
\<close>

theorem check_url_raises_counterexample:
  "check_url \<lparr>timeout = 0, max_workers = 5\<rparr> (fst (init_ua None))
     \<lparr>pe_random = ''agent'',
      pe_get = (\<lambda>req. if req_timeout req \<le> 0
                       then Raised (Exn ValueError ''Attempted to set connect timeout to 0'')
                       else Response 200)\<rparr>
     (JStr ''http://x/200'')
   = Inl (Exn ValueError ''Attempted to set connect timeout to 0'')"
  by (simp add: check_url_def classify_def probe_request_init)

text \<open>
  C8. When the identity provider failed at initialisation, the request of every probe
  carries the one fixed fallback string as \<open>User-Agent\<close>, whatever the provider would
  have given; when initialisation succeeded, it carries the string the provider gives
  for this probe. In both cases the \<open>Referer\<close> is the same fixed value, and the GET is
  issued with exactly this request.
\<close>

theorem headers_identity:
  "probe_request self (fst (init_ua (Some e))) (pe_random env) url
     = Inr \<lparr>req_url = url,
            req_headers = [(''User-Agent'', fallback_user_agent),
                           (''Referer'', ''https://www.google.com/'')],
            req_timeout = timeout self, req_allow_redirects = False\<rparr>
   \<and> check_url self (fst (init_ua (Some e))) env url
     = classify (pe_get env
         \<lparr>req_url = url,
          req_headers = [(''User-Agent'', fallback_user_agent),
                         (''Referer'', ''https://www.google.com/'')],
          req_timeout = timeout self, req_allow_redirects = False\<rparr>)
   \<and> probe_request self (fst (init_ua None)) (pe_random env) url
     = Inr \<lparr>req_url = url,
            req_headers = [(''User-Agent'', pe_random env),
                           (''Referer'', ''https://www.google.com/'')],
            req_timeout = timeout self, req_allow_redirects = False\<rparr>
   \<and> check_url self (fst (init_ua None)) env url
     = classify (pe_get env
         \<lparr>req_url = url,
          req_headers = [(''User-Agent'', pe_random env),
                         (''Referer'', ''https://www.google.com/'')],
          req_timeout = timeout self, req_allow_redirects = False\<rparr>)"
  by (simp add: check_url_def probe_request_init)

section \<open>Facts about the coordinator\<close>

lemma collect_statuses:
  "fst (collect n i fs (statuses, out)) = statuses @ map result_status fs"
  by (induction fs arbitrary: i statuses out) (simp_all add: Let_def)

lemma collect_out:
  "snd (collect n i fs (statuses, out))
     = out @ map (\<lambda>k. ''Processed '' @ str_int k @ '' out of '' @ str_int n @ '' URLs'')
               (filter (\<lambda>k. k mod 10 = 0 \<or> k = n) [i + 1..i + int (length fs)])"
proof (induction fs arbitrary: i statuses out)
  case Nil
  then show ?case by simp
next
  case (Cons f fs)
  have range: "[i + 1..i + int (length (f # fs))] = (i + 1) # [i + 1 + 1..i + 1 + int (length fs)]"
    by (simp add: upto_rec1 algebra_simps)
  have "(i = n - 1) = (i + 1 = n)" by auto
  then show ?case
    unfolding range by (simp add: Cons.IH Let_def)
qed

lemma mset_without_nth:
  "j < length xs \<Longrightarrow> add_mset (xs ! j) (mset (take j xs) + mset (drop (Suc j) xs)) = mset xs"
proof -
  assume "j < length xs"
  then have "xs = take j xs @ xs ! j # drop (Suc j) xs"
    by (rule id_take_nth_drop)
  then have "mset xs = mset (take j xs @ xs ! j # drop (Suc j) xs)"
    by simp
  then show ?thesis by simp
qed

text \<open>Every schedule completes every future exactly once.\<close>

lemma mset_as_completed: "mset (as_completed sched fs) = mset fs"
proof (induction sched fs rule: as_completed.induct)
  case (3 k sched f fs)
  define j where "j = k mod length (f # fs)"
  have j: "j < length (f # fs)" unfolding j_def by simp
  have step: "as_completed (k # sched) (f # fs)
      = (f # fs) ! j # as_completed sched (take j (f # fs) @ drop (Suc j) (f # fs))"
    unfolding j_def by (simp only: as_completed.simps Let_def)
  from 3 [OF j_def] have "mset (as_completed sched (take j (f # fs) @ drop (Suc j) (f # fs)))
     = mset (take j (f # fs)) + mset (drop (Suc j) (f # fs))"
    by simp
  then have "mset (as_completed (k # sched) (f # fs))
     = add_mset ((f # fs) ! j) (mset (take j (f # fs)) + mset (drop (Suc j) (f # fs)))"
    by (simp only: step mset.simps)
  also have "\<dots> = mset (f # fs)"
    by (rule mset_without_nth [OF j])
  finally show ?case .
qed simp_all

lemma length_as_completed: "length (as_completed sched fs) = length fs"
  using mset_as_completed [of sched fs] by (metis size_mset)

text \<open>Every order of completion is the order of some schedule.\<close>

lemma as_completed_any_order:
  "mset ys = mset fs \<Longrightarrow> \<exists>sched. as_completed sched fs = ys"
proof (induction ys arbitrary: fs)
  case Nil
  then show ?case by simp
next
  case (Cons y ys)
  then have "y \<in> set fs" by (metis list.set_intros(1) set_mset_mset)
  then obtain j where j: "j < length fs" "fs ! j = y" by (auto simp: in_set_conv_nth)
  then obtain f fs' where fs: "fs = f # fs'" by (cases fs) auto
  have "add_mset y (mset (take j fs) + mset (drop (Suc j) fs)) = add_mset y (mset ys)"
    using mset_without_nth [OF j(1)] j(2) Cons.prems by simp
  then have "mset ys = mset (take j fs @ drop (Suc j) fs)" by simp
  from Cons.IH [OF this] obtain sched where
    "as_completed sched (take j fs @ drop (Suc j) fs) = ys" ..
  then have "as_completed (j # sched) fs = y # ys"
    using j unfolding fs by (simp add: Let_def del: take_Suc_Cons drop_Suc_Cons nth_Cons_Suc)
  then show ?case ..
qed

lemma fut_url_submit_all:
  "map fut_url (submit_all self ua world j url_list) = filter truthy url_list"
  by (induction url_list arbitrary: j) simp_all

lemma length_submit_all:
  "length (submit_all self ua world j url_list) = length (filter truthy url_list)"
  using fut_url_submit_all [of self ua world j url_list] by (metis length_map)

lemma process_urls_returns:
  "0 < max_workers self \<Longrightarrow>
   process_urls self ua world sched url_list
     = Inr (map result_status (as_completed sched (submit_all self ua world 0 url_list)),
            map (\<lambda>k. ''Processed '' @ str_int k @ '' out of ''
                      @ str_int (int (length url_list)) @ '' URLs'')
              (filter (\<lambda>k. k mod 10 = 0 \<or> k = int (length url_list))
                 [1..int (length (filter truthy url_list))]))"
proof -
  assume "0 < max_workers self"
  moreover have "collect n 0 fs ([], [])
      = (map result_status fs,
         map (\<lambda>k. ''Processed '' @ str_int k @ '' out of '' @ str_int n @ '' URLs'')
           (filter (\<lambda>k. k mod 10 = 0 \<or> k = n) [1..int (length fs)]))" for n fs
    using collect_statuses [of n 0 fs "[]" "[]"] collect_out [of n 0 fs "[]" "[]"]
    by (simp add: prod_eq_iff)
  ultimately show ?thesis
    by (simp add: process_urls_def Let_def length_as_completed length_submit_all)
qed

text \<open>
  The lines written by \<open>process_urls\<close>: one after each completed task whose number
  \<open>k\<close> (counted from 1 among the submitted tasks) is a multiple of 10 or equals the
  length of the whole list, the tasks left out included.
\<close>

lemma process_urls_progress:
  "0 < max_workers self \<Longrightarrow>
   \<exists>statuses. process_urls self ua world sched url_list
     = Inr (statuses,
            map (\<lambda>k. ''Processed '' @ str_int k @ '' out of ''
                      @ str_int (int (length url_list)) @ '' URLs'')
              (filter (\<lambda>k. k mod 10 = 0 \<or> k = int (length url_list))
                 [1..int (length (filter truthy url_list))]))"
  by (simp add: process_urls_returns)

text \<open>Without a positive number of workers there is no pool, and nothing is probed.\<close>

lemma process_urls_no_pool:
  "max_workers self \<le> 0 \<Longrightarrow>
   process_urls self ua world sched url_list
     = Inl (Exn ValueError ''max_workers must be greater than 0'')"
  by (simp add: process_urls_def)

text \<open>
  C3. A coordinator whose pool exists (its number of workers is positive, as it is by
  default and in the application) returns for every batch: the number of statuses
  that \<open>process_urls\<close> returns is the number of URLs of the batch that are not empty;
  exactly those URLs are submitted, in their order; and the statuses returned are, as
  a multiset, the statuses of the submitted tasks, so that none is lost and none is
  counted twice.
\<close>

theorem process_urls_count:
  assumes "0 < max_workers self"
  shows "\<exists>statuses out.
     process_urls self ua world sched url_list = Inr (statuses, out)
     \<and> length statuses = length (filter truthy url_list)
     \<and> map fut_url (submit_all self ua world 0 url_list) = filter truthy url_list
     \<and> mset statuses = image_mset result_status (mset (submit_all self ua world 0 url_list))"
proof -
  have "mset (map result_status (as_completed sched (submit_all self ua world 0 url_list)))
      = image_mset result_status (mset (submit_all self ua world 0 url_list))"
    by (simp add: mset_as_completed)
  then show ?thesis
    by (simp add: process_urls_returns [OF assms] length_as_completed length_submit_all
          fut_url_submit_all)
qed

theorem process_urls_count_witness:
  "0 < max_workers new_URLChecker
   \<and> (\<exists>statuses out.
        process_urls new_URLChecker (fst (init_ua None)) (\<lambda>j. example_env) [1]
          [JStr ''http://x/200'', JStr [], JNull, JStr ''http://x/404'']
          = Inr (statuses, out)
        \<and> length statuses = 2
        \<and> mset statuses = {#''Working'', ''Not Working - Status Code: 404''#})"
  using process_urls_count [of new_URLChecker "fst (init_ua None)" "\<lambda>j. example_env" "[1]"
      "[JStr ''http://x/200'', JStr [], JNull, JStr ''http://x/404'']"]
  by (simp add: new_URLChecker_def [symmetric] result_status_def check_url_example)
     (auto simp: new_URLChecker_def numeral_2_eq_2)

text \<open>
  C5. A coordinator whose pool exists returns, and raises nothing: \<open>process_urls\<close>
  gives one status for every completed future, in the order of completion. Where
  \<open>future.result()\<close> raises an exception the status is \<open>Failed - \<close> followed by its
  text, where it returns a status that status is kept, and the futures that complete
  after a failed one are collected all the same.
\<close>

theorem process_urls_contains_faults:
  assumes "0 < max_workers self"
  shows "\<exists>statuses out.
     process_urls self ua world sched url_list = Inr (statuses, out)
     \<and> length statuses = length (as_completed sched (submit_all self ua world 0 url_list))
     \<and> (\<forall>k < length (as_completed sched (submit_all self ua world 0 url_list)).
          (\<forall>e. fut_result (as_completed sched (submit_all self ua world 0 url_list) ! k) = Inl e
             \<longrightarrow> statuses ! k = ''Failed - '' @ str_exn e)
        \<and> (\<forall>s. fut_result (as_completed sched (submit_all self ua world 0 url_list) ! k) = Inr s
             \<longrightarrow> statuses ! k = s))"
  by (simp add: process_urls_returns [OF assms] result_status_def)

lemma example_completion:
  "as_completed [1] (submit_all new_URLChecker (fst (init_ua None)) (\<lambda>j. example_env) 0
      [JStr ''http://x/200'', JStr ''http://x/fault'', JStr ''http://x/404''])
   = [\<lparr>fut_id = 1, fut_url = JStr ''http://x/fault'', fut_result = Inl (Exn ValueError ''fault'')\<rparr>,
      \<lparr>fut_id = 0, fut_url = JStr ''http://x/200'', fut_result = Inr ''Working''\<rparr>,
      \<lparr>fut_id = 2, fut_url = JStr ''http://x/404'',
        fut_result = Inr ''Not Working - Status Code: 404''\<rparr>]"
  by (simp add: check_url_example)

theorem process_urls_contains_faults_witness:
  "0 < max_workers new_URLChecker
   \<and> (\<exists>statuses out.
        process_urls new_URLChecker (fst (init_ua None)) (\<lambda>j. example_env) [1]
          [JStr ''http://x/200'', JStr ''http://x/fault'', JStr ''http://x/404'']
          = Inr (statuses, out)
        \<and> length statuses = 3
        \<and> statuses ! 0 = ''Failed - fault''
        \<and> statuses ! 1 = ''Working''
        \<and> statuses ! 2 = ''Not Working - Status Code: 404'')"
  using process_urls_contains_faults [of new_URLChecker "fst (init_ua None)" "\<lambda>j. example_env"
      "[1]" "[JStr ''http://x/200'', JStr ''http://x/fault'', JStr ''http://x/404'']"]
  unfolding example_completion
  by (simp add: All_less_Suc numeral_3_eq_3 numeral_2_eq_2) (auto simp: new_URLChecker_def)

text \<open>
  C1, on a batch of two URLs of which the second completes first. The statuses come
  back in the order of completion, and the exporter pairs them by index with the
  labels and URLs, which are in the order of submission: the row of the URL that
  answers 200 carries the status of the URL that answers 404, and the other way
  round.
\<close>

theorem process_urls_order_failing:
  "process_urls new_URLChecker (fst (init_ua None)) (\<lambda>j. example_env) [1]
          [JStr ''http://x/200'', JStr ''http://x/404'']
     = Inr ([''Not Working - Status Code: 404'', ''Working''], [''Processed 2 out of 2 URLs''])
   \<and> save_to_excel example_writer
        [JStr ''m1'', JStr ''m2''] [JStr ''http://x/200'', JStr ''http://x/404'']
        [''Not Working - Status Code: 404'', ''Working'']
        [] [] []
     = Inr [(''image_status'',
             [(JStr ''m1'', JStr ''http://x/200'', ''Not Working - Status Code: 404''),
              (JStr ''m2'', JStr ''http://x/404'', ''Working'')]),
            (''pdf_status'', [])]
   \<and> check_url new_URLChecker (fst (init_ua None)) example_env (JStr ''http://x/200'')
     = Inr ''Working''
   \<and> check_url new_URLChecker (fst (init_ua None)) example_env (JStr ''http://x/404'')
     = Inr ''Not Working - Status Code: 404''"
  by (simp add: process_urls_def new_URLChecker_def [symmetric] result_status_def
        check_url_example save_to_excel_def data_frame_def example_writer_def
        illegal_character_def str_int_numerals)
     (simp add: new_URLChecker_def)

text \<open>
  C6, on a batch of one URL and one empty entry. The only task completes, and it is
  the final one, but nothing is written: the test for the final task compares its
  index with the length of the whole list, the empty entry included.
\<close>

theorem process_urls_progress_failing:
  "process_urls new_URLChecker (fst (init_ua None)) (\<lambda>j. example_env) []
     [JStr ''http://x/200'', JStr []] = Inr ([''Working''], [])"
  by (simp add: process_urls_def new_URLChecker_def [symmetric] result_status_def
        check_url_example)
     (simp add: new_URLChecker_def)

section \<open>Facts about the extractor\<close>

lemma bind_exn_Inr:
  "bind_exn m f = Inr y \<longleftrightarrow> (\<exists>x. m = Inr x \<and> f x = Inr y)"
  by (cases m) simp_all

lemma read_entries_invariant:
  "read_entries key model entries (urls, models) = Inr (urls', models') \<Longrightarrow>
   length urls = length models \<Longrightarrow> list_all truthy urls \<Longrightarrow>
   length urls' = length models' \<and> list_all truthy urls'"
proof (induction entries arbitrary: urls models)
  case Nil
  then show ?case by simp
next
  case (Cons entry entries)
  from Cons.prems(1) obtain url where url: "dict_get entry key JNull = Inr url"
    and rest: "read_entries key model entries
                 (if truthy url then (urls @ [url], models @ [model]) else (urls, models))
               = Inr (urls', models')"
    by (auto split: sum.splits)
  show ?case
  proof (cases "truthy url")
    case True
    with rest have "read_entries key model entries (urls @ [url], models @ [model])
        = Inr (urls', models')" by simp
    from Cons.IH [OF this] Cons.prems(2,3) True show ?thesis by simp
  next
    case False
    with rest have "read_entries key model entries (urls, models) = Inr (urls', models')"
      by simp
    from Cons.IH [OF this Cons.prems(2,3)] show ?thesis .
  qed
qed

lemma read_models_invariant:
  "read_models ms (iu, im, au, am) = Inr (iu', im', au', am') \<Longrightarrow>
   length iu = length im \<Longrightarrow> list_all truthy iu \<Longrightarrow>
   length au = length am \<Longrightarrow> list_all truthy au \<Longrightarrow>
   length iu' = length im' \<and> list_all truthy iu' \<and> length au' = length am' \<and> list_all truthy au'"
proof (induction ms arbitrary: iu im au am)
  case Nil
  then show ?case by simp
next
  case (Cons m ms)
  from Cons.prems(1) obtain model image_list iu1 im1 attachment_list au1 am1 where
    images: "read_entries ''src'' model image_list (iu, im) = Inr (iu1, im1)"
    and attachments:
      "read_entries ''attachmentLocation'' model attachment_list (au, am) = Inr (au1, am1)"
    and rest: "read_models ms (iu1, im1, au1, am1) = Inr (iu', im', au', am')"
    by (auto simp: bind_exn_Inr)
  from read_entries_invariant [OF images Cons.prems(2,3)]
  have i: "length iu1 = length im1" "list_all truthy iu1" by simp_all
  from read_entries_invariant [OF attachments Cons.prems(4,5)]
  have a: "length au1 = length am1" "list_all truthy au1" by simp_all
  from Cons.IH [OF rest i a] show ?case .
qed

lemma read_entries_returns:
  "list_all is_object entries \<Longrightarrow> \<exists>r. read_entries key model entries acc = Inr r"
proof (induction entries arbitrary: acc)
  case Nil
  then show ?case by (cases acc) simp
next
  case (Cons entry entries)
  then obtain kvs where "entry = JObj kvs" by (cases entry) simp_all
  with Cons show ?case by (cases acc) simp
qed

lemma iterate_array_of_objects:
  "is_array_of_objects v \<Longrightarrow> \<exists>xs. iterate v = Inr xs \<and> list_all is_object xs"
  by (cases v) simp_all

lemma read_models_returns:
  "list_all well_formed_model ms \<Longrightarrow> \<exists>r. read_models ms acc = Inr r"
proof (induction ms arbitrary: acc)
  case Nil
  have "read_models [] acc = Inr acc" by simp
  then show ?case ..
next
  case (Cons m ms)
  obtain iu im au am where acc: "acc = (iu, im, au, am)" by (rule prod_cases4)
  from Cons.prems obtain kvs where m: "m = JObj kvs" by (cases m) simp_all
  from Cons.prems m obtain g where g: "dict_get m ''general'' (JObj []) = Inr g" "is_object g"
    by (auto split: option.splits)
  then obtain model where model: "dict_get g ''model'' JNull = Inr model"
    by (cases g) simp_all
  from Cons.prems m obtain images where
    images: "dict_get m ''images'' (JArr []) = Inr images" "is_array_of_objects images"
    by (auto split: option.splits)
  from iterate_array_of_objects [OF images(2)] obtain image_list where
    image_list: "iterate images = Inr image_list" "list_all is_object image_list" by auto
  from read_entries_returns [OF image_list(2)] obtain iu1 im1 where
    r1: "read_entries ''src'' model image_list (iu, im) = Inr (iu1, im1)" by fastforce
  from Cons.prems m obtain attachments where
    attachments: "dict_get m ''attachments'' (JArr []) = Inr attachments"
      "is_array_of_objects attachments"
    by (auto split: option.splits)
  from iterate_array_of_objects [OF attachments(2)] obtain attachment_list where
    attachment_list: "iterate attachments = Inr attachment_list"
      "list_all is_object attachment_list" by auto
  from read_entries_returns [OF attachment_list(2)] obtain au1 am1 where
    r2: "read_entries ''attachmentLocation'' model attachment_list (au, am) = Inr (au1, am1)"
    by fastforce
  from Cons.prems have "list_all well_formed_model ms" by simp
  from Cons.IH [OF this] obtain r where
    "read_models ms (iu1, im1, au1, am1) = Inr r" by blast
  then have "read_models (m # ms) (iu, im, au, am) = Inr r"
    by (simp add: g model images image_list r1 attachments attachment_list r2)
  then show ?case unfolding acc ..
qed

lemma read_urls_example:
  "read_urls (Inr example_document)
     = Inr ([JStr ''m1'', JStr ''m1''], [JStr ''http://x/200'', JStr ''http://x/404''],
            [JNull], [JStr ''http://x/301''])"
  by (simp add: read_urls_def example_document_def)

text \<open>
  C10, as the code has it. When \<open>json.load\<close> raises a \<open>JSONDecodeError\<close> (the text of
  the document is not JSON), \<open>read_urls\<close> returns four empty lists; when opening or
  loading the document raises an exception of any other class (a
  \<open>UnicodeDecodeError\<close> for a file that is not UTF-8, a \<open>RecursionError\<close> for a
  document nested too deeply), \<open>read_urls\<close> raises it. On a document of the expected
  shape it returns four lists. Whenever it returns, the list of image labels is as
  long as the list of image URLs, the list of attachment labels is as long as the
  list of attachment URLs, and every URL returned is truthy (a string among them is
  not empty), an entry without such a URL having been left out together with its
  label.
\<close>

theorem read_urls_lists:
  "(exn_class_of e = JSONDecodeError \<longrightarrow> read_urls (Inl e) = Inr ([], [], [], []))
   \<and> (exn_class_of e \<noteq> JSONDecodeError \<longrightarrow> read_urls (Inl e) = Inl e)
   \<and> (well_formed_document data \<longrightarrow> (\<exists>r. read_urls (Inr data) = Inr r))
   \<and> (read_urls loaded = Inr (image_models, image_urls, attachment_models, attachment_urls)
        \<longrightarrow> length image_models = length image_urls
          \<and> length attachment_models = length attachment_urls
          \<and> (\<forall>url \<in> set image_urls \<union> set attachment_urls. truthy url))"
proof -
  have malformed: "read_urls (Inl e) = Inr ([], [], [], [])"
    if "exn_class_of e = JSONDecodeError"
    using that by (simp add: read_urls_def)
  have other: "read_urls (Inl e) = Inl e" if "exn_class_of e \<noteq> JSONDecodeError"
    using that by (simp add: read_urls_def)
  have returns: "\<exists>r. read_urls (Inr data) = Inr r" if "well_formed_document data"
  proof -
    from that obtain ms where ms: "data = JArr ms" "list_all well_formed_model ms"
      by (cases data) simp_all
    from read_models_returns [OF ms(2)] obtain r where
      "read_models ms ([], [], [], []) = Inr r" by blast
    then show ?thesis
      by (cases r) (simp add: read_urls_def ms(1))
  qed
  have lists: "length image_models = length image_urls
          \<and> length attachment_models = length attachment_urls
          \<and> (\<forall>url \<in> set image_urls \<union> set attachment_urls. truthy url)"
    if r: "read_urls loaded
             = Inr (image_models, image_urls, attachment_models, attachment_urls)"
  proof (cases loaded)
    case (Inl e')
    with r show ?thesis by (auto simp: read_urls_def split: if_splits)
  next
    case (Inr d)
    with r obtain ms where
      "read_models ms ([], [], [], [])
         = Inr (image_urls, image_models, attachment_urls, attachment_models)"
      by (auto simp: read_urls_def split: sum.splits)
    from read_models_invariant [OF this] show ?thesis
      by (auto simp: list_all_iff)
  qed
  from malformed other returns lists show ?thesis by blast
qed

theorem read_urls_lists_witness:
  "read_urls (Inl (Exn JSONDecodeError ''Expecting value: line 1 column 1 (char 0)''))
     = Inr ([], [], [], [])
   \<and> read_urls (Inl (Exn RecursionError ''maximum recursion depth exceeded''))
     = Inl (Exn RecursionError ''maximum recursion depth exceeded'')
   \<and> (\<exists>r. read_urls (Inr example_document) = Inr r)
   \<and> length [JStr ''m1'', JStr ''m1''] = length [JStr ''http://x/200'', JStr ''http://x/404'']
   \<and> length [JNull] = length [JStr ''http://x/301'']
   \<and> truthy (JStr ''http://x/200'') \<and> truthy (JStr ''http://x/404'')
   \<and> truthy (JStr ''http://x/301'')"
  using
    read_urls_lists [of "Exn JSONDecodeError ''Expecting value: line 1 column 1 (char 0)''"
      example_document "Inr example_document" "[JStr ''m1'', JStr ''m1'']"
      "[JStr ''http://x/200'', JStr ''http://x/404'']" "[JNull]" "[JStr ''http://x/301'']"]
    read_urls_lists [of "Exn RecursionError ''maximum recursion depth exceeded''"
      example_document "Inr example_document" "[JStr ''m1'', JStr ''m1'']"
      "[JStr ''http://x/200'', JStr ''http://x/404'']" "[JNull]" "[JStr ''http://x/301'']"]
  by (simp add: read_urls_example)

text \<open>
  C10 as stated fails twice. On a document that is valid JSON of another shape, here
  a model whose \<open>general\<close> is \<open>null\<close>, \<open>read_urls\<close> raises an \<open>AttributeError\<close> and
  returns no lists. And on a document that cannot be decoded because it is not
  UTF-8, the \<open>UnicodeDecodeError\<close> is not the class that \<open>read_urls\<close> handles, and it
  raises instead of returning four empty lists.
\<close>

theorem read_urls_raises_counterexample:
  "read_urls (Inr (JArr [JObj [(''general'', JNull)]]))
     = Inl (Exn AttributeError
             (quoted ''NoneType'' @ '' object has no attribute '' @ quoted ''get''))
   \<and> read_urls (Inl (Exn UnicodeDecodeError ''invalid start byte''))
     = Inl (Exn UnicodeDecodeError ''invalid start byte'')"
  by (simp add: read_urls_def)

end
